theory Spec2Isabelle
  imports Main
begin

section \<open>Python values used by the plate generator\<close>

text \<open>
  A Python \<open>str\<close> is a sequence of Unicode code points, so \<open>len\<close>, slicing and iteration
  count code points. Literals of the source are written with \<open>str\<close>.
\<close>

type_synonym pystr = "nat list"

definition str :: "string \<Rightarrow> pystr" where
  "str s = map of_char s"

text \<open>
  \<open>str.isspace\<close> of one code point: the white-space class of the Python runtime
  (TAB to CR, FS to US, SPACE, NEL, NBSP and the Unicode space separators).
\<close>

definition py_isspace :: "nat \<Rightarrow> bool" where
  "py_isspace c \<longleftrightarrow>
     (9 \<le> c \<and> c \<le> 13) \<or> (28 \<le> c \<and> c \<le> 32) \<or> c = 133 \<or> c = 160 \<or> c = 5760 \<or>
     (8192 \<le> c \<and> c \<le> 8202) \<or> c = 8232 \<or> c = 8233 \<or> c = 8239 \<or> c = 8287 \<or> c = 12288"

text \<open>\<open>s.strip()\<close>: white space removed from both ends.\<close>

definition strip :: "pystr \<Rightarrow> pystr" where
  "strip s = rev (dropWhile py_isspace (rev (dropWhile py_isspace s)))"

text \<open>
  \<open>s.upper()\<close> maps every code point through the full upper-case mapping of the Unicode
  database, which may give several code points for one. The table belongs to the Python
  runtime, not to this repository, so it is a parameter.
\<close>

definition upper :: "(nat \<Rightarrow> nat list) \<Rightarrow> pystr \<Rightarrow> pystr" where
  "upper up s = concat (map up s)"

text \<open>
  The exceptions that can leave the generator. \<open>OSError\<close> stands for the error of a failed
  \<open>img.save\<close> (the directory is missing or does not accept the write), with the path.
\<close>

datatype error = ValueError pystr | FileNotFoundError pystr | IndexError | OSError pystr

text \<open>
  \<open>int(s, 16)\<close> on the slices \<open>hex_to_rgb\<close> passes, which have at most two characters.
  White space is dropped at both ends: for \<open>int\<close> that is TAB to CR and SPACE, and the
  white space beyond ASCII, but not FS to US. One sign is accepted, and what remains must be
  a non-empty run of digits: the ASCII hexadecimal digits, and beyond ASCII the decimal
  digits of the Unicode database, whose table \<open>todecimal\<close> is a parameter. A prefix \<open>0x\<close> or
  an underscore cannot be followed by enough digits in two characters. \<open>None\<close> stands for
  the \<open>ValueError\<close> that \<open>int\<close> raises.
\<close>

definition int_space :: "nat \<Rightarrow> bool" where
  "int_space c \<longleftrightarrow> (9 \<le> c \<and> c \<le> 13) \<or> c = 32 \<or> (128 \<le> c \<and> py_isspace c)"

definition int_strip :: "pystr \<Rightarrow> pystr" where
  "int_strip s = rev (dropWhile int_space (rev (dropWhile int_space s)))"

definition hex_digit :: "(nat \<Rightarrow> nat option) \<Rightarrow> nat \<Rightarrow> int option" where
  "hex_digit todecimal c =
     (if 48 \<le> c \<and> c \<le> 57 then Some (int c - 48)
      else if 65 \<le> c \<and> c \<le> 70 then Some (int c - 55)
      else if 97 \<le> c \<and> c \<le> 102 then Some (int c - 87)
      else if 128 \<le> c then map_option int (todecimal c)
      else None)"

fun hex_value :: "(nat \<Rightarrow> nat option) \<Rightarrow> pystr \<Rightarrow> int \<Rightarrow> int option" where
  "hex_value todecimal [] acc = Some acc"
| "hex_value todecimal (c # cs) acc =
     (case hex_digit todecimal c of
        None \<Rightarrow> None
      | Some d \<Rightarrow> hex_value todecimal cs (16 * acc + d))"

definition hex_unsigned :: "(nat \<Rightarrow> nat option) \<Rightarrow> pystr \<Rightarrow> int option" where
  "hex_unsigned todecimal s = (if s = [] then None else hex_value todecimal s 0)"

definition py_int16 :: "(nat \<Rightarrow> nat option) \<Rightarrow> pystr \<Rightarrow> int option" where
  "py_int16 todecimal s =
     (case int_strip s of
        [] \<Rightarrow> None
      | c # r \<Rightarrow>
          if c = 43 then hex_unsigned todecimal r
          else if c = 45 then map_option uminus (hex_unsigned todecimal r)
          else hex_unsigned todecimal (c # r))"

section \<open>Fonts and images of the imaging library\<close>

text \<open>
  A font is either a TrueType file opened at a size, or the built-in face that
  \<open>ImageFont.load_default()\<close> returns.
\<close>

datatype font = TrueType pystr nat | DefaultFont

datatype colour = ColourName pystr | RGB int int int

type_synonym bbox = "int \<times> int \<times> int \<times> int"

text \<open>The calls made on an \<open>ImageDraw\<close> object, with the arguments the source passes.\<close>

datatype draw_op =
    Rectangle bbox "colour option" "colour option" nat
  | Polygon "(int \<times> int) list" "colour option"
  | Ellipse bbox "colour option"
  | Text "int \<times> int" pystr colour font

text \<open>
  An image has a fixed size. Its pixels are what it started from (a solid fill of
  \<open>Image.new\<close>, or the raster of a file somebody put in the asset directory) followed by
  the drawing calls applied to it, in order. Two images with the same fields have the
  same pixels. The images are in a mode that takes the colours the source draws with, as
  the RGB placeholder is; a single-band file, on which the library refuses an RGB colour,
  is not an image of this type, so a drawing call always succeeds.
\<close>

datatype 'p base = Filled pystr | Raster 'p

record 'p image =
  im_width :: nat
  im_height :: nat
  im_base :: "'p base"
  im_ops :: "draw_op list"

definition new_image :: "nat \<Rightarrow> nat \<Rightarrow> pystr \<Rightarrow> 'p image" where
  "new_image w h c = \<lparr>im_width = w, im_height = h, im_base = Filled c, im_ops = []\<rparr>"

definition draw :: "draw_op \<Rightarrow> 'p image \<Rightarrow> 'p image" where
  "draw operation img = img\<lparr>im_ops := im_ops img @ [operation]\<rparr>"

text \<open>
  The environment of a call: the upper-case table and the decimal digits of the Unicode
  database, which font files \<open>ImageFont.truetype\<close> can open at a size (it raises
  otherwise), the measurement \<open>draw.textbbox((0, 0), s, font=f)\<close> of the rasteriser, and
  whether \<open>img.save\<close> can write a path (it raises when the directory is missing or does
  not accept the write).
\<close>

record env =
  toupper_full :: "nat \<Rightarrow> nat list"
  todecimal :: "nat \<Rightarrow> nat option"
  truetype_loads :: "pystr \<Rightarrow> nat \<Rightarrow> bool"
  textbbox :: "font \<Rightarrow> pystr \<Rightarrow> bbox"
  save_ok :: "pystr \<Rightarrow> bool"

text \<open>The asset directory: a path holds an image file or nothing.\<close>

type_synonym 'p store = "pystr \<rightharpoonup> 'p image"

section \<open>The plate generator\<close>

record config =
  name :: pystr
  image_path :: pystr
  text_color :: pystr
  text_position :: "int \<times> int"
  font_size :: nat
  letter_spacing :: int
  max_chars :: nat

definition standard :: config where
  "standard =
     \<lparr>name = str ''Standard Oregon Tree'',
      image_path = str ''static/images/oregon_standard_clean.png'',
      text_color = str ''#1B365D'',
      text_position = (490, 180),
      font_size = 200,
      letter_spacing = 8,
      max_chars = 10\<rparr>"

definition plate_config :: "pystr \<rightharpoonup> config" where
  "plate_config = [str ''standard'' \<mapsto> standard]"

definition placeholder_font :: "env \<Rightarrow> font" where
  "placeholder_font E =
     (if truetype_loads E (str ''arialbold.ttf'') 48
      then TrueType (str ''arialbold.ttf'') 48 else DefaultFont)"

definition tree_layer :: "int \<Rightarrow> int \<Rightarrow> int \<Rightarrow> draw_op" where
  "tree_layer tree_x tree_y i =
     (let y_offset = tree_y - 20 - (i * 25);
          size = 40 - (i * 5)
      in Ellipse (tree_x - size, y_offset - size div 2, tree_x + size, y_offset + size div 2)
           (Some (ColourName (str ''#5C8A58''))))"

definition hole :: "int \<times> int \<Rightarrow> draw_op" where
  "hole p = (case p of (x, y) \<Rightarrow>
     Ellipse (x - 15, y - 15, x + 15, y + 15) (Some (ColourName (str ''#000000''))))"

definition placeholder_image :: "env \<Rightarrow> 'p image" where
  "placeholder_image E =
     (let width = 950; height = 475;
          img = new_image (nat width) (nat height) (str ''#E8F4F8'');
          border_color = ColourName (str ''#1B365D'');
          img = draw (Rectangle (10, 10, width - 10, height - 10) None (Some border_color) 8) img;
          mountain_points =
            [(0, height - 80), (150, height - 120), (300, height - 100),
             (450, height - 140), (600, height - 110), (750, height - 130),
             (width, height - 90), (width, height), (0, height)];
          img = draw (Polygon mountain_points (Some (ColourName (str ''#2C5F7C'')))) img;
          tree_x = width div 2; tree_y = height - 120;
          img = draw (Rectangle (tree_x - 8, tree_y, tree_x + 8, tree_y + 40)
                        (Some (ColourName (str ''#4A6741''))) None 1) img;
          img = fold (\<lambda>i. draw (tree_layer tree_x tree_y i)) [0, 1, 2] img;
          font = placeholder_font E;
          text = str ''Oregon'';
          text_width = (case textbbox E font text of (l, t, r, b) \<Rightarrow> r - l);
          img = draw (Text (width div 2 - text_width div 2, 40) text border_color font) img;
          hole_positions =
            [(80, 80), (width - 80, 80), (80, height - 80), (width - 80, height - 80)];
          img = fold (\<lambda>p. draw (hole p)) hole_positions img;
          img = draw (Rectangle (80, height - 150, 160, height - 100) None (Some border_color) 3) img;
          img = draw (Rectangle (width - 160, height - 150, width - 80, height - 100)
                        None (Some border_color) 3) img
      in img)"

text \<open>
  \<open>create_placeholder_image\<close> builds the picture and saves it under the fixed file name.
  When the save fails its error leaves the function and nothing is written.
\<close>

definition create_placeholder_image :: "env \<Rightarrow> 'p store \<Rightarrow> error + 'p store" where
  "create_placeholder_image E fs =
     (let img = placeholder_image E
      in if save_ok E (str ''static/images/oregon_standard_clean.png'')
         then Inr (fs(str ''static/images/oregon_standard_clean.png'' \<mapsto> img))
         else Inl (OSError (str ''static/images/oregon_standard_clean.png'')))"

definition hex_to_rgb :: "env \<Rightarrow> pystr \<Rightarrow> error + colour" where
  "hex_to_rgb E hex_color =
     (let h = dropWhile (\<lambda>c. c = 35) hex_color in
      case py_int16 (todecimal E) (take 2 (drop 0 h)) of
        None \<Rightarrow> Inl (ValueError (take 2 (drop 0 h)))
      | Some r \<Rightarrow>
          (case py_int16 (todecimal E) (take 2 (drop 2 h)) of
             None \<Rightarrow> Inl (ValueError (take 2 (drop 2 h)))
           | Some g \<Rightarrow>
               (case py_int16 (todecimal E) (take 2 (drop 4 h)) of
                  None \<Rightarrow> Inl (ValueError (take 2 (drop 4 h)))
                | Some b \<Rightarrow> Inr (RGB r g b))))"

subsection \<open>Drawing with letter spacing\<close>

definition glyph_width :: "env \<Rightarrow> font \<Rightarrow> nat \<Rightarrow> int" where
  "glyph_width E f c = (case textbbox E f [c] of (l, t, r, b) \<Rightarrow> r - l)"

text \<open>The measuring loop: it returns \<open>total_width\<close> and \<open>char_widths\<close>.\<close>

fun measure_chars :: "env \<Rightarrow> font \<Rightarrow> pystr \<Rightarrow> int \<Rightarrow> int list \<Rightarrow> int \<times> int list" where
  "measure_chars E f [] total_width char_widths = (total_width, char_widths)"
| "measure_chars E f (c # cs) total_width char_widths =
     (let char_width = glyph_width E f c
      in measure_chars E f cs (total_width + char_width) (char_widths @ [char_width]))"

definition total_width :: "env \<Rightarrow> font \<Rightarrow> pystr \<Rightarrow> int \<Rightarrow> int" where
  "total_width E f text spacing =
     fst (measure_chars E f text 0 []) + spacing * (int (length text) - 1)"

definition start_x :: "env \<Rightarrow> font \<Rightarrow> pystr \<Rightarrow> int \<Rightarrow> int \<Rightarrow> int" where
  "start_x E f text x spacing = x - total_width E f text spacing div 2"

text \<open>
  The drawing loop over \<open>enumerate(text)\<close>. The glyph is drawn first, then
  \<open>char_widths[i]\<close> is read, which raises \<open>IndexError\<close> out of range.
\<close>

fun draw_chars ::
  "font \<Rightarrow> colour \<Rightarrow> int \<Rightarrow> int \<Rightarrow> int list \<Rightarrow> nat \<Rightarrow> int \<Rightarrow> pystr \<Rightarrow> 'p image \<Rightarrow> error + 'p image"
where
  "draw_chars f color_rgb spacing y char_widths i current_x [] img = Inr img"
| "draw_chars f color_rgb spacing y char_widths i current_x (c # cs) img =
     (let img' = draw (Text (current_x, y - 25) [c] color_rgb f) img
      in if i < length char_widths
         then draw_chars f color_rgb spacing y char_widths (Suc i)
                (current_x + (char_widths ! i + spacing)) cs img'
         else Inl IndexError)"

definition draw_text_with_spacing ::
  "env \<Rightarrow> 'p image \<Rightarrow> pystr \<Rightarrow> int \<times> int \<Rightarrow> font \<Rightarrow> pystr \<Rightarrow> int \<Rightarrow> error + 'p image"
where
  "draw_text_with_spacing E img text position f color spacing =
     (case position of (x, y) \<Rightarrow>
        (case hex_to_rgb E color of
           Inl e \<Rightarrow> Inl e
         | Inr color_rgb \<Rightarrow>
             draw_chars f color_rgb spacing y (snd (measure_chars E f text 0 [])) 0
               (start_x E f text x spacing) text img))"

subsection \<open>\<open>generate_plate\<close>\<close>

definition font_paths :: "pystr list" where
  "font_paths =
     [str ''C:/Windows/Fonts/arial.ttf'',
      str ''/System/Library/Fonts/Arial.ttf'',
      str ''/usr/share/fonts/truetype/dejavu/DejaVuSans-Bold.ttf'',
      str ''arial.ttf'']"

fun try_fonts :: "env \<Rightarrow> pystr list \<Rightarrow> nat \<Rightarrow> font option" where
  "try_fonts E [] sz = None"
| "try_fonts E (path # paths) sz =
     (if truetype_loads E path sz then Some (TrueType path sz)
      else try_fonts E paths sz)"

definition load_font :: "env \<Rightarrow> nat \<Rightarrow> font" where
  "load_font E sz =
     (case try_fonts E font_paths sz of None \<Rightarrow> DefaultFont | Some f \<Rightarrow> f)"

text \<open>
  Everything after the base image has been opened: copy, font, drawing. \<open>base_img.copy()\<close>
  is a new image with the content of \<open>base_img\<close>; all drawing goes to the copy.
\<close>

definition compose :: "env \<Rightarrow> config \<Rightarrow> pystr \<Rightarrow> 'p image \<Rightarrow> error + 'p image" where
  "compose E config text base_img =
     (let img = base_img;
          f = load_font E (font_size config)
      in if letter_spacing config > 0
         then draw_text_with_spacing E img text (text_position config) f
                (text_color config) (letter_spacing config)
         else
           (case textbbox E f text of (l, t, r, b) \<Rightarrow>
              (let text_width = r - l; text_height = b - t;
                   x = fst (text_position config) - text_width div 2;
                   y = snd (text_position config) - text_height div 2
               in case hex_to_rgb E (text_color config) of
                    Inl e \<Rightarrow> Inl e
                  | Inr c \<Rightarrow> Inr (draw (Text (x, y) text c f) img))))"

definition validate_text :: "env \<Rightarrow> config \<Rightarrow> pystr \<Rightarrow> pystr" where
  "validate_text E config text =
     (let text = strip (upper (toupper_full E) text)
      in if length text > max_chars config then take (max_chars config) text else text)"

text \<open>
  Opening the base image: when the file is missing the placeholder is created and the
  file is opened again. An error of the save, or a second \<open>FileNotFoundError\<close>, is not
  caught.
\<close>

definition load_base_image :: "env \<Rightarrow> 'p store \<Rightarrow> config \<Rightarrow> (error + 'p image) \<times> 'p store" where
  "load_base_image E fs config =
     (case fs (image_path config) of
        Some base_img \<Rightarrow> (Inr base_img, fs)
      | None \<Rightarrow>
          (case create_placeholder_image E fs of
             Inl e \<Rightarrow> (Inl e, fs)
           | Inr fs' \<Rightarrow>
               (case fs' (image_path config) of
                  None \<Rightarrow> (Inl (FileNotFoundError (image_path config)), fs')
                | Some base_img \<Rightarrow> (Inr base_img, fs'))))"

text \<open>
  \<open>generate_plate\<close> returns the image or the exception, and the asset directory as the
  call leaves it.
\<close>

definition generate_plate ::
  "env \<Rightarrow> 'p store \<Rightarrow> pystr \<Rightarrow> pystr \<Rightarrow> (error + 'p image) \<times> 'p store"
where
  "generate_plate E fs text plate_type =
     (case plate_config plate_type of
        None \<Rightarrow> (Inl (ValueError (str ''Unknown plate type: '' @ plate_type)), fs)
      | Some config \<Rightarrow>
          (let text = validate_text E config text
           in case load_base_image E fs config of
                (Inl e, fs') \<Rightarrow> (Inl e, fs')
              | (Inr base_img, fs') \<Rightarrow> (compose E config text base_img, fs')))"

text \<open>
  Successive calls of \<open>generate_plate\<close> on the one generator object of the process, as the
  request handlers make them, each with its text and plate type. Every call starts from
  the asset directory that the call before it left.
\<close>

fun generate_plates :: "env \<Rightarrow> 'p store \<Rightarrow> (pystr \<times> pystr) list \<Rightarrow> 'p store" where
  "generate_plates E fs [] = fs"
| "generate_plates E fs ((text, plate_type) # calls) =
     generate_plates E (snd (generate_plate E fs text plate_type)) calls"

section \<open>A sample environment\<close>

text \<open>
  An environment to run the generator in: the ASCII part of the upper-case table, no
  digit beyond ASCII, no font file on the machine, a built-in font whose glyphs are
  between 4 and 8 pixels wide and 11 high, and an asset directory that can be written.
\<close>

definition ascii_upper :: "nat \<Rightarrow> nat list" where
  "ascii_upper c = (if 97 \<le> c \<and> c \<le> 122 then [c - 32] else [c])"

definition sample_bbox :: "font \<Rightarrow> pystr \<Rightarrow> bbox" where
  "sample_bbox f s = (0, 0, sum_list (map (\<lambda>c. int (c mod 5) + 4) s), 11)"

definition sample_env :: env where
  "sample_env =
     \<lparr>toupper_full = ascii_upper, todecimal = (\<lambda>c. None),
      truetype_loads = (\<lambda>path sz. False), textbbox = sample_bbox,
      save_ok = (\<lambda>path. True)\<rparr>"

text \<open>
  A second environment: every font file opens, every glyph is 10 wide and 20 high, and
  the asset directory cannot be written.
\<close>

definition wide_bbox :: "font \<Rightarrow> pystr \<Rightarrow> bbox" where
  "wide_bbox f s = (0, 0, 10 * int (length s), 20)"

definition readonly_env :: env where
  "readonly_env =
     \<lparr>toupper_full = ascii_upper, todecimal = (\<lambda>c. None),
      truetype_loads = (\<lambda>path sz. True), textbbox = wide_bbox,
      save_ok = (\<lambda>path. False)\<rparr>"

definition blank_plate :: "nat image" where
  "blank_plate = \<lparr>im_width = 950, im_height = 475, im_base = Raster 0, im_ops = []\<rparr>"

definition warm_store :: "nat store" where
  "warm_store = [str ''static/images/oregon_standard_clean.png'' \<mapsto> blank_plate]"

section \<open>Observations on results\<close>

text \<open>The characters a list of drawing calls writes, in drawing order.\<close>

fun op_text :: "draw_op \<Rightarrow> pystr" where
  "op_text (Text p s c f) = s"
| "op_text (Rectangle b fill outline w) = []"
| "op_text (Polygon ps fill) = []"
| "op_text (Ellipse b fill) = []"

definition text_drawn :: "draw_op list \<Rightarrow> pystr" where
  "text_drawn ops = concat (map op_text ops)"

text \<open>
  The calls the drawing loop of \<open>draw_text_with_spacing\<close> makes, in closed form: glyph
  \<open>k\<close> at the start position plus the widths of the glyphs before it plus \<open>k\<close> spacings.
\<close>

definition glyphs :: "env \<Rightarrow> font \<Rightarrow> colour \<Rightarrow> int \<times> int \<Rightarrow> int \<Rightarrow> pystr \<Rightarrow> draw_op list" where
  "glyphs E f rgb pos sp t =
     map (\<lambda>k. Text (start_x E f t (fst pos) sp + sum_list (map (glyph_width E f) (take k t))
                      + int k * sp, snd pos - 25) [t ! k] rgb f)
       [0..<length t]"

text \<open>
  What is needed of the upper-case table for \<open>upper\<close> and \<open>strip\<close> to commute: white space
  has no case, and the image of any other character neither is empty nor starts or ends
  with white space. The Unicode table has both properties.
\<close>

definition case_map_ok :: "(nat \<Rightarrow> nat list) \<Rightarrow> bool" where
  "case_map_ok up \<longleftrightarrow>
     (\<forall>c. py_isspace c \<longrightarrow> up c = [c]) \<and>
     (\<forall>c. \<not> py_isspace c \<longrightarrow>
          up c \<noteq> [] \<and> \<not> py_isspace (hd (up c)) \<and> \<not> py_isspace (last (up c)))"

section \<open>Basic facts\<close>

lemma plate_config_fields:
  assumes "plate_config pt = Some cfg"
  shows "pt = str ''standard''"
    and "image_path cfg = str ''static/images/oregon_standard_clean.png''"
    and "text_color cfg = str ''#1B365D''"
    and "text_position cfg = (490, 180)"
    and "font_size cfg = 200"
    and "letter_spacing cfg = 8"
    and "max_chars cfg = 10"
  using assms by (auto simp add: plate_config_def standard_def split: if_splits)

lemma plate_config_standard: "plate_config (str ''standard'') = Some standard"
  by (simp add: plate_config_def)

lemma hex_to_rgb_standard: "hex_to_rgb E (str ''#1B365D'') = Inr (RGB 27 54 93)"
  by (simp add: hex_to_rgb_def str_def py_int16_def int_strip_def int_space_def
      hex_unsigned_def hex_digit_def)

lemma measure_chars_eq:
  "measure_chars E f cs tw cw =
     (tw + sum_list (map (glyph_width E f) cs), cw @ map (glyph_width E f) cs)"
  by (induction cs arbitrary: tw cw) (simp_all add: Let_def)

lemma map_upt_shift: "map g [0..<Suc n] = g 0 # map (\<lambda>k. g (Suc k)) [0..<n]"
  by (simp add: upt_conv_Cons map_Suc_upt[symmetric] del: upt_Suc)

text \<open>
  The drawing loop never reads \<open>char_widths\<close> out of range when the list is long enough,
  and glyph \<open>k\<close> lands at the running position.
\<close>

lemma draw_chars_eq:
  "i + length cs \<le> length cw \<Longrightarrow>
   draw_chars f col sp y cw i cx cs img =
     Inr (img\<lparr>im_ops := im_ops img @
            map (\<lambda>k. Text (cx + sum_list (take k (drop i cw)) + int k * sp, y - 25) [cs ! k] col f)
              [0..<length cs]\<rparr>)"
proof (induction cs arbitrary: i cx img)
  case Nil
  then show ?case by simp
next
  case (Cons c cs)
  from Cons.prems have i: "i < length cw" and le: "Suc i + length cs \<le> length cw"
    by simp_all
  have d: "drop i cw = cw ! i # drop (Suc i) cw"
    using i by (simp add: Cons_nth_drop_Suc)
  show ?case
    using i
    by (simp add: Cons.IH[OF le] Let_def draw_def map_upt_shift d algebra_simps del: upt_Suc)
qed

lemma draw_text_with_spacing_eq:
  assumes "hex_to_rgb E color = Inr rgb"
  shows "draw_text_with_spacing E img text (x, y) f color sp =
     Inr (img\<lparr>im_ops := im_ops img @
            map (\<lambda>k. Text (start_x E f text x sp + sum_list (map (glyph_width E f) (take k text))
                             + int k * sp, y - 25) [text ! k] rgb f)
              [0..<length text]\<rparr>)"
  using assms
  by (simp add: draw_text_with_spacing_def measure_chars_eq draw_chars_eq take_map)

lemma load_base_image_registered:
  assumes "plate_config pt = Some cfg"
  shows "load_base_image E fs cfg =
     (case fs (image_path cfg) of
        Some b \<Rightarrow> (Inr b, fs)
      | None \<Rightarrow>
          if save_ok E (image_path cfg)
          then (Inr (placeholder_image E), fs(image_path cfg \<mapsto> placeholder_image E))
          else (Inl (OSError (image_path cfg)), fs))"
  by (simp add: load_base_image_def create_placeholder_image_def
      plate_config_fields(2)[OF assms] split: option.splits)

lemma compose_registered:
  assumes "plate_config pt = Some cfg"
  shows "compose E cfg text bg =
     draw_text_with_spacing E bg text (text_position cfg) (load_font E (font_size cfg))
       (text_color cfg) (letter_spacing cfg)"
  by (simp add: compose_def plate_config_fields(6)[OF assms])

lemma generate_plate_registered:
  assumes "plate_config pt = Some cfg" and "load_base_image E fs cfg = (Inr bg, fs')"
  shows "generate_plate E fs T pt =
     (draw_text_with_spacing E bg (validate_text E cfg T) (text_position cfg)
        (load_font E (font_size cfg)) (text_color cfg) (letter_spacing cfg), fs')"
  using assms by (simp add: generate_plate_def compose_registered[OF assms(1)])

lemma total_width_eq:
  "total_width E f text spacing =
     sum_list (map (glyph_width E f) text) + spacing * (int (length text) - 1)"
  by (simp add: total_width_def measure_chars_eq)

lemma text_drawn_glyphs:
  "text_drawn (map (\<lambda>k. Text (p k) [text ! k] c f) [0..<length text]) = text"
  by (simp add: text_drawn_def comp_def concat_map_singleton map_nth)

subsection \<open>\<open>upper\<close> and \<open>strip\<close> commute\<close>

lemma dropWhile_upper:
  assumes "case_map_ok up"
  shows "dropWhile py_isspace (upper up s) = upper up (dropWhile py_isspace s)"
proof (induction s)
  case Nil
  then show ?case by (simp add: upper_def)
next
  case (Cons c s)
  show ?case
  proof (cases "py_isspace c")
    case True
    with assms have "up c = [c]" by (simp add: case_map_ok_def)
    with True Cons show ?thesis by (simp add: upper_def)
  next
    case False
    with assms have ne: "up c \<noteq> []" and h: "\<not> py_isspace (hd (up c))"
      by (simp_all add: case_map_ok_def)
    then obtain a r where ar: "up c = a # r" by (cases "up c") auto
    with h False show ?thesis by (simp add: upper_def)
  qed
qed

lemma case_map_ok_rev:
  assumes "case_map_ok up"
  shows "case_map_ok (\<lambda>c. rev (up c))"
  using assms by (auto simp add: case_map_ok_def hd_rev last_rev)

lemma rev_upper: "rev (upper up s) = upper (\<lambda>c. rev (up c)) (rev s)"
  by (simp add: upper_def rev_concat rev_map comp_def)

lemma strip_upper:
  assumes "case_map_ok up"
  shows "strip (upper up s) = upper up (strip s)"
proof -
  have "rev (dropWhile py_isspace (rev (upper up (dropWhile py_isspace s)))) =
        rev (upper (\<lambda>c. rev (up c)) (dropWhile py_isspace (rev (dropWhile py_isspace s))))"
    by (simp add: rev_upper dropWhile_upper[OF case_map_ok_rev[OF assms]])
  also have "\<dots> = upper up (rev (dropWhile py_isspace (rev (dropWhile py_isspace s))))"
    by (simp add: rev_upper[of "\<lambda>c. rev (up c)"])
  finally show ?thesis
    by (simp add: strip_def dropWhile_upper[OF assms])
qed

lemma validate_text_eq:
  "validate_text E cfg T = take (max_chars cfg) (strip (upper (toupper_full E) T))"
  by (simp add: validate_text_def Let_def)

lemma case_map_ok_ascii: "case_map_ok ascii_upper"
  by (auto simp add: case_map_ok_def ascii_upper_def py_isspace_def)

lemma generate_plate_ops:
  assumes "plate_config pt = Some cfg" and "load_base_image E fs cfg = (Inr bg, fs')"
  shows "generate_plate E fs T pt =
     (Inr (bg\<lparr>im_ops := im_ops bg @
              glyphs E (load_font E (font_size cfg)) (RGB 27 54 93) (text_position cfg)
                (letter_spacing cfg) (validate_text E cfg T)\<rparr>), fs')"
proof -
  have c: "hex_to_rgb E (text_color cfg) = Inr (RGB 27 54 93)"
    by (simp add: plate_config_fields(3)[OF assms(1)] hex_to_rgb_standard)
  obtain x y where p: "text_position cfg = (x, y)" by (cases "text_position cfg")
  show ?thesis
    by (simp add: generate_plate_registered[OF assms] p draw_text_with_spacing_eq[OF c] glyphs_def)
qed

lemma text_drawn_glyph_list: "text_drawn (glyphs E f rgb pos sp t) = t"
  by (simp add: glyphs_def text_drawn_glyphs)

lemma length_glyphs: "length (glyphs E f rgb pos sp t) = length t"
  by (simp add: glyphs_def)

lemma generate_plate_save_fails:
  assumes "plate_config pt = Some cfg"
    and "fs (image_path cfg) = None" and "\<not> save_ok E (image_path cfg)"
  shows "generate_plate E fs T pt = (Inl (OSError (image_path cfg)), fs)"
  using assms by (simp add: generate_plate_def load_base_image_registered[OF assms(1)])

lemma placeholder_image_size:
  "im_width (placeholder_image E) = 950 \<and> im_height (placeholder_image E) = 475"
  by (simp add: placeholder_image_def Let_def new_image_def draw_def)

lemma warm_store_standard:
  "load_base_image sample_env warm_store standard = (Inr blank_plate, warm_store)"
  by (simp add: load_base_image_def warm_store_def standard_def)

lemma centred_span: "\<bar>(x - (x - w div 2)) - (x - w div 2 + w - x)\<bar> \<le> (1 :: int)"
  by presburger

lemma sample_validate:
  "validate_text sample_env standard (str '' test123longtext '') = str ''TEST123LON''"
  by (simp add: validate_text_def sample_env_def standard_def str_def upper_def ascii_upper_def
      strip_def py_isspace_def)


lemma sum_list_take_last:
  assumes "t \<noteq> []"
  shows "sum_list (map w (take (length t - 1) t)) + w (last t) = sum_list (map w t)"
  using assms by (induction t rule: rev_induct) simp_all

lemma sample_load_font: "load_font sample_env sz = DefaultFont"
  by (simp add: load_font_def font_paths_def sample_env_def)

lemma sample_glyph_width: "glyph_width sample_env f c = int (c mod 5) + 4"
  by (simp add: glyph_width_def sample_env_def sample_bbox_def)

lemma generate_plate_store_present:
  assumes "fs (image_path standard) = Some bg"
  shows "snd (generate_plate E fs T pt) = fs"
proof (cases "plate_config pt")
  case None
  then show ?thesis by (simp add: generate_plate_def)
next
  case (Some cfg)
  have p: "image_path cfg = image_path standard"
    by (simp add: plate_config_fields(2)[OF Some] standard_def)
  have "load_base_image E fs cfg = (Inr bg, fs)"
    using assms by (simp add: load_base_image_registered[OF Some] p)
  then show ?thesis
    by (simp add: generate_plate_registered[OF Some])
qed

lemma generate_plates_store_present:
  assumes "fs (image_path standard) = Some bg"
  shows "generate_plates E fs calls = fs"
proof (induction calls)
  case Nil
  show ?case by simp
next
  case (Cons a calls)
  obtain T pt where a: "a = (T, pt)" by (cases a)
  show ?case
    by (simp add: a generate_plate_store_present[where fs=fs and bg=bg, OF assms] Cons.IH)
qed

lemma try_fonts_none:
  "\<forall>p \<in> set ps. \<not> truetype_loads E p sz \<Longrightarrow> try_fonts E ps sz = None"
  by (induction ps) simp_all

lemma warm_store_path: "warm_store (image_path standard) = Some blank_plate"
  by (simp add: warm_store_def standard_def)

lemma empty_store_path: "(Map.empty :: nat store) (image_path standard) = None"
  by simp

lemma sample_no_fonts: "\<forall>p \<in> set font_paths. \<not> truetype_loads sample_env p (font_size standard)"
  by (simp add: sample_env_def)

lemma empty_store_standard:
  "load_base_image sample_env (Map.empty :: nat store) standard =
     (Inr (placeholder_image sample_env), [image_path standard \<mapsto> placeholder_image sample_env])"
  by (simp add: load_base_image_registered[OF plate_config_standard] sample_env_def)

section \<open>Unknown plate types\<close>

text \<open>
  Claim C4. For every text and every plate type that is not a key of \<open>plate_config\<close>,
  \<open>generate_plate\<close> raises the \<open>ValueError\<close> for an unknown plate type and returns no image.
  The asset directory is exactly as before the call: the error comes before the base image
  is opened or a placeholder is written, and before anything is measured or drawn.
\<close>

theorem generate_plate_unknown_layout:
  assumes "plate_type \<notin> dom plate_config"
  shows "generate_plate E fs text plate_type =
     (Inl (ValueError (str ''Unknown plate type: '' @ plate_type)), fs)"
  using assms by (simp add: generate_plate_def domIff)

theorem generate_plate_unknown_layout_witness:
  "str ''vanity'' \<notin> dom plate_config \<and>
   generate_plate sample_env (Map.empty :: nat store) (str ''abc'') (str ''vanity'') =
     (Inl (ValueError (str ''Unknown plate type: vanity'')), Map.empty)"
proof -
  have h: "str ''vanity'' \<notin> dom plate_config"
    by (simp add: plate_config_def str_def)
  show ?thesis
    using h generate_plate_unknown_layout [OF h, of sample_env Map.empty "str ''abc''"]
    by (simp add: str_def)
qed

section \<open>Layout width and centring\<close>

text \<open>
  Claim C3, as the code has it. For every text of \<open>n\<close> characters the total layout width
  is the sum of the measured glyph widths plus \<open>spacing * (n - 1)\<close>, computed with no
  guard on \<open>n\<close>. For one character the spacing term is zero and the width is that of the
  glyph. For the empty text the term is \<open>- spacing\<close>, so the width is \<open>- spacing\<close> and not
  zero; nothing is drawn then.
\<close>

theorem total_width_formula:
  "total_width E f text spacing =
     sum_list (map (glyph_width E f) text) + spacing * (int (length text) - 1) \<and>
   total_width E f [c] spacing = glyph_width E f c \<and>
   total_width E f [] spacing = - spacing"
  by (simp add: total_width_def measure_chars_eq)

text \<open>
  Claim C3 as stated says that for the empty text the spacing term is zero, so that the
  total width is the sum of the glyph widths, which is 0. With the letter spacing of the
  standard plate the code computes \<open>- 8\<close>.
\<close>

theorem total_width_empty_counterexample:
  "total_width sample_env DefaultFont [] (letter_spacing standard) = - 8 \<and>
   sum_list (map (glyph_width sample_env DefaultFont) []) = 0 \<and>
   total_width sample_env DefaultFont [] (letter_spacing standard) \<noteq>
     sum_list (map (glyph_width sample_env DefaultFont) [])"
  by (simp add: total_width_def standard_def)

text \<open>
  Claim C6. For a registered plate type and a non-empty normalised text, the glyphs that
  \<open>generate_plate\<close> draws are centred on the anchor up to one pixel. The first drawing call
  added to the background is the first character at some \<open>left\<close>, the last one is the last
  character at some \<open>xlast\<close>, and its right edge \<open>xlast\<close> plus its measured width is
  \<open>left + total_width\<close>. The distance from \<open>left\<close> to the anchor and the distance from the
  anchor to that right edge differ by at most 1.
\<close>

theorem generate_plate_span_centred:
  assumes "plate_config pt = Some cfg"
    and "load_base_image E fs cfg = (Inr bg, fs')"
    and "validate_text E cfg T \<noteq> []"
  shows "let t = validate_text E cfg T; f = load_font E (font_size cfg);
             ax = fst (text_position cfg); ay = snd (text_position cfg);
             n = length (im_ops bg)
         in \<exists>img left xlast.
              generate_plate E fs T pt = (Inr img, fs') \<and>
              length (im_ops img) = n + length t \<and>
              im_ops img ! n = Text (left, ay - 25) [hd t] (RGB 27 54 93) f \<and>
              im_ops img ! (n + length t - 1) = Text (xlast, ay - 25) [last t] (RGB 27 54 93) f \<and>
              xlast + glyph_width E f (last t) = left + total_width E f t (letter_spacing cfg) \<and>
              \<bar>(ax - left) - (xlast + glyph_width E f (last t) - ax)\<bar> \<le> 1"
proof -
  let ?t = "validate_text E cfg T"
  let ?f = "load_font E (font_size cfg)"
  let ?sp = "letter_spacing cfg"
  let ?ax = "fst (text_position cfg)"
  let ?w = "total_width E ?f ?t ?sp"
  let ?g = "glyphs E ?f (RGB 27 54 93) (text_position cfg) ?sp ?t"
  let ?img = "bg\<lparr>im_ops := im_ops bg @ ?g\<rparr>"
  let ?left = "?ax - ?w div 2"
  let ?xlast = "?left + sum_list (map (glyph_width E ?f) (take (length ?t - 1) ?t))
                  + int (length ?t - 1) * ?sp"
  have ne: "?t \<noteq> []" by (rule assms(3))
  then have pos: "0 < length ?t" by simp
  have n: "int (length ?t - 1) = int (length ?t) - 1"
    using ne by (cases ?t) simp_all
  have e: "sum_list (map (glyph_width E ?f) (take (length ?t - 1) ?t)) + glyph_width E ?f (last ?t)
      = sum_list (map (glyph_width E ?f) ?t)"
    by (rule sum_list_take_last[OF ne])
  have right: "?xlast + glyph_width E ?f (last ?t) = ?left + ?w"
    unfolding total_width_eq n e[symmetric] by (simp add: algebra_simps)
  have g: "generate_plate E fs T pt = (Inr ?img, fs')"
    by (rule generate_plate_ops[OF assms(1,2)])
  have len: "length (im_ops ?img) = length (im_ops bg) + length ?t"
    by (simp add: length_glyphs)
  have first: "im_ops ?img ! length (im_ops bg) =
      Text (?left, snd (text_position cfg) - 25) [hd ?t] (RGB 27 54 93) ?f"
    using pos by (simp add: glyphs_def start_x_def hd_conv_nth[OF ne] nth_append)
  have lt: "length ?t - 1 < length ?t"
    using pos by simp
  have idx: "length (im_ops bg) + length ?t - 1 = length (im_ops bg) + (length ?t - 1)"
    using pos by arith
  have io: "im_ops ?img = im_ops bg @ ?g"
    by simp
  have gl: "?g ! (length ?t - 1) =
      Text (?xlast, snd (text_position cfg) - 25) [last ?t] (RGB 27 54 93) ?f"
    using lt by (simp add: glyphs_def start_x_def last_conv_nth[OF ne])
  have final: "im_ops ?img ! (length (im_ops bg) + length ?t - 1) =
      Text (?xlast, snd (text_position cfg) - 25) [last ?t] (RGB 27 54 93) ?f"
    unfolding idx io nth_append_length_plus by (rule gl)
  have c: "\<bar>(?ax - ?left) - (?xlast + glyph_width E ?f (last ?t) - ?ax)\<bar> \<le> 1"
    unfolding right by (rule centred_span)
  show ?thesis
    unfolding Let_def
    using g len first final right c
    by (intro exI[of _ ?img] exI[of _ ?left] exI[of _ ?xlast] conjI)
qed

theorem generate_plate_span_centred_witness:
  "plate_config (str ''standard'') = Some standard \<and>
   load_base_image sample_env warm_store standard = (Inr blank_plate, warm_store) \<and>
   validate_text sample_env standard (str ''ab1'') \<noteq> [] \<and>
   (\<exists>img left xlast.
      generate_plate sample_env warm_store (str ''ab1'') (str ''standard'') = (Inr img, warm_store) \<and>
      length (im_ops img) = 3 \<and>
      im_ops img ! 0 = Text (left, 155) [65] (RGB 27 54 93) DefaultFont \<and>
      im_ops img ! 2 = Text (xlast, 155) [49] (RGB 27 54 93) DefaultFont \<and>
      xlast + 8 = left + 33 \<and>
      \<bar>(490 - left) - (xlast + 8 - 490)\<bar> \<le> 1)"
proof -
  have v: "validate_text sample_env standard (str ''ab1'') = [65, 66, 49]"
    by (simp add: validate_text_def sample_env_def standard_def str_def upper_def ascii_upper_def
      strip_def py_isspace_def)
  have ne: "validate_text sample_env standard (str ''ab1'') \<noteq> []"
    by (simp add: v)
  have tw: "total_width sample_env DefaultFont [65, 66, 49] (letter_spacing standard) = 33"
    by (simp add: total_width_def sample_glyph_width standard_def)
  have c: "text_position standard = (490, 180)"
    by (simp add: standard_def)
  have b: "im_ops blank_plate = []"
    by (simp add: blank_plate_def)
  note r = generate_plate_span_centred
      [OF plate_config_standard warm_store_standard ne, unfolded Let_def v sample_load_font tw]
  from r have "\<exists>img left xlast.
      generate_plate sample_env warm_store (str ''ab1'') (str ''standard'') = (Inr img, warm_store) \<and>
      length (im_ops img) = 3 \<and>
      im_ops img ! 0 = Text (left, 155) [65] (RGB 27 54 93) DefaultFont \<and>
      im_ops img ! 2 = Text (xlast, 155) [49] (RGB 27 54 93) DefaultFont \<and>
      xlast + 8 = left + 33 \<and>
      \<bar>(490 - left) - (xlast + 8 - 490)\<bar> \<le> 1"
    by (simp add: b c sample_glyph_width numeral_2_eq_2 numeral_3_eq_3)
  with plate_config_standard warm_store_standard ne show ?thesis
    by (intro conjI)
qed

section \<open>Normalisation and truncation\<close>

text \<open>
  Claim C1. For every input text \<open>T\<close> and registered plate type, the characters
  \<open>generate_plate\<close> draws onto the background are the first \<open>max_chars\<close> characters of
  \<open>upper (strip T)\<close>, one drawing call per character. When that text has at most
  \<open>max_chars\<close> characters nothing is cut, otherwise exactly \<open>max_chars\<close> characters are kept.
  The truncated text is the only text handed to \<open>draw_text_with_spacing\<close>, which does all
  measuring and drawing. The source applies \<open>upper\<close> before \<open>strip\<close>; the two commute for
  an upper-case table in which white space has no case.
\<close>

theorem generate_plate_draws_normalized_text:
  assumes "plate_config pt = Some cfg"
    and "case_map_ok (toupper_full E)"
    and "load_base_image E fs cfg = (Inr bg, fs')"
  shows "let t = take (max_chars cfg) (upper (toupper_full E) (strip T)) in
     generate_plate E fs T pt =
       (draw_text_with_spacing E bg t (text_position cfg) (load_font E (font_size cfg))
          (text_color cfg) (letter_spacing cfg), fs') \<and>
     (\<exists>ops. fst (generate_plate E fs T pt) = Inr (bg\<lparr>im_ops := im_ops bg @ ops\<rparr>) \<and>
            text_drawn ops = t \<and> length ops = length t) \<and>
     (length (upper (toupper_full E) (strip T)) \<le> max_chars cfg \<longrightarrow>
        t = upper (toupper_full E) (strip T)) \<and>
     (max_chars cfg < length (upper (toupper_full E) (strip T)) \<longrightarrow> length t = max_chars cfg)"
proof -
  have v: "validate_text E cfg T = take (max_chars cfg) (upper (toupper_full E) (strip T))"
    by (simp add: validate_text_eq strip_upper[OF assms(2)])
  have a: "generate_plate E fs T pt =
       (draw_text_with_spacing E bg (validate_text E cfg T) (text_position cfg)
          (load_font E (font_size cfg)) (text_color cfg) (letter_spacing cfg), fs')"
    by (rule generate_plate_registered[OF assms(1,3)])
  have b: "\<exists>ops. fst (generate_plate E fs T pt) = Inr (bg\<lparr>im_ops := im_ops bg @ ops\<rparr>) \<and>
            text_drawn ops = validate_text E cfg T \<and> length ops = length (validate_text E cfg T)"
    by (rule exI[of _ "glyphs E (load_font E (font_size cfg)) (RGB 27 54 93) (text_position cfg)
                (letter_spacing cfg) (validate_text E cfg T)"])
       (simp add: generate_plate_ops[OF assms(1,3)] text_drawn_glyph_list length_glyphs)
  show ?thesis
    using a b unfolding v Let_def by simp
qed

theorem generate_plate_draws_normalized_text_witness:
  "plate_config (str ''standard'') = Some standard \<and>
   case_map_ok (toupper_full sample_env) \<and>
   load_base_image sample_env warm_store standard = (Inr blank_plate, warm_store) \<and>
   (\<exists>ops. fst (generate_plate sample_env warm_store (str '' test123longtext '') (str ''standard''))
             = Inr (blank_plate\<lparr>im_ops := im_ops blank_plate @ ops\<rparr>) \<and>
          text_drawn ops = str ''TEST123LON'' \<and> length ops = 10)"
proof -
  have h2: "case_map_ok (toupper_full sample_env)"
    by (simp add: sample_env_def case_map_ok_ascii)
  have t: "take (max_chars standard) (upper (toupper_full sample_env) (strip (str '' test123longtext '')))
      = str ''TEST123LON''"
    by (simp add: sample_env_def standard_def str_def upper_def ascii_upper_def
      strip_def py_isspace_def)
  have l: "length (str ''TEST123LON'') = 10" by (simp add: str_def)
  note r = generate_plate_draws_normalized_text
      [OF plate_config_standard h2 warm_store_standard, of "str '' test123longtext ''",
       unfolded Let_def t l]
  from r have "\<exists>ops. fst (generate_plate sample_env warm_store (str '' test123longtext '') (str ''standard''))
             = Inr (blank_plate\<lparr>im_ops := im_ops blank_plate @ ops\<rparr>) \<and>
          text_drawn ops = str ''TEST123LON'' \<and> length ops = 10"
    by (elim conjE)
  with plate_config_standard h2 warm_store_standard show ?thesis
    by (intro conjI)
qed

section \<open>Glyph positions\<close>

text \<open>
  Claim C2. For a registered plate type and a normalised text \<open>t\<close> of at least one
  character, \<open>generate_plate\<close> adds one drawing call per character to the background, and
  character \<open>i\<close> (counted from 0) is drawn at \<open>x = anchor_x - total_width div 2\<close> plus the
  measured widths of the characters before it plus \<open>i\<close> times the letter spacing, and at
  \<open>y = anchor_y - 25\<close>, whatever the font measures. No spacing follows the last character:
  its position plus its width is the start plus the total width.
\<close>

theorem generate_plate_glyph_positions:
  assumes "plate_config pt = Some cfg"
    and "load_base_image E fs cfg = (Inr bg, fs')"
    and "i < length (validate_text E cfg T)"
  shows "let t = validate_text E cfg T; f = load_font E (font_size cfg);
             sp = letter_spacing cfg; w = glyph_width E f;
             x0 = fst (text_position cfg) - total_width E f t sp div 2
         in \<exists>img. generate_plate E fs T pt = (Inr img, fs') \<and>
              length (im_ops img) = length (im_ops bg) + length t \<and>
              im_ops img ! (length (im_ops bg) + i) =
                Text (x0 + sum_list (map w (take i t)) + int i * sp, snd (text_position cfg) - 25)
                  [t ! i] (RGB 27 54 93) f \<and>
              x0 + sum_list (map w (take (length t - 1) t)) + int (length t - 1) * sp + w (last t) =
                x0 + total_width E f t sp"
proof -
  let ?t = "validate_text E cfg T"
  let ?f = "load_font E (font_size cfg)"
  from assms(3) have ne: "?t \<noteq> []" by auto
  have n: "int (length ?t - 1) = int (length ?t) - 1"
    using ne by (cases ?t) simp_all
  have e: "sum_list (map (glyph_width E ?f) (take (length ?t - 1) ?t)) + glyph_width E ?f (last ?t)
      = sum_list (map (glyph_width E ?f) ?t)"
    by (rule sum_list_take_last[OF ne])
  have last: "sum_list (map (glyph_width E ?f) (take (length ?t - 1) ?t))
       + int (length ?t - 1) * letter_spacing cfg + glyph_width E ?f (last ?t)
     = total_width E ?f ?t (letter_spacing cfg)"
    unfolding total_width_eq n e[symmetric] by (simp add: algebra_simps)
  have ops: "im_ops (bg\<lparr>im_ops := im_ops bg @ glyphs E ?f (RGB 27 54 93) (text_position cfg)
                (letter_spacing cfg) ?t\<rparr>) ! (length (im_ops bg) + i) =
       Text (fst (text_position cfg) - total_width E ?f ?t (letter_spacing cfg) div 2
               + sum_list (map (glyph_width E ?f) (take i ?t)) + int i * letter_spacing cfg,
             snd (text_position cfg) - 25) [?t ! i] (RGB 27 54 93) ?f"
    using assms(3) by (simp add: glyphs_def start_x_def)
  have len: "length (im_ops (bg\<lparr>im_ops := im_ops bg @ glyphs E ?f (RGB 27 54 93) (text_position cfg)
                (letter_spacing cfg) ?t\<rparr>)) = length (im_ops bg) + length ?t"
    by (simp add: length_glyphs)
  show ?thesis
    unfolding Let_def generate_plate_ops[OF assms(1,2)]
    using ops len last by (intro exI[of _ "bg\<lparr>im_ops := im_ops bg @ glyphs E ?f (RGB 27 54 93) (text_position cfg)
                (letter_spacing cfg) ?t\<rparr>"] conjI) (simp_all only: add.assoc)
qed

theorem generate_plate_glyph_positions_witness:
  "plate_config (str ''standard'') = Some standard \<and>
   load_base_image sample_env warm_store standard = (Inr blank_plate, warm_store) \<and>
   2 < length (validate_text sample_env standard (str ''ab1'')) \<and>
   (\<exists>img. generate_plate sample_env warm_store (str ''ab1'') (str ''standard'') = (Inr img, warm_store) \<and>
      length (im_ops img) = 3 \<and>
      im_ops img ! 2 = Text (499, 155) [49] (RGB 27 54 93) DefaultFont)"
proof -
  have v: "validate_text sample_env standard (str ''ab1'') = [65, 66, 49]"
    by (simp add: validate_text_def sample_env_def standard_def str_def upper_def ascii_upper_def
      strip_def py_isspace_def)
  have i: "2 < length (validate_text sample_env standard (str ''ab1''))"
    by (simp add: v)
  have tw: "total_width sample_env DefaultFont [65, 66, 49] (letter_spacing standard) = 33"
    by (simp add: total_width_def sample_glyph_width standard_def)
  have c: "text_position standard = (490, 180)" "letter_spacing standard = 8"
    by (simp_all add: standard_def)
  have b: "im_ops blank_plate = []"
    by (simp add: blank_plate_def)
  note r = generate_plate_glyph_positions
      [OF plate_config_standard warm_store_standard i, unfolded Let_def v sample_load_font tw]
  from r have "\<exists>img. generate_plate sample_env warm_store (str ''ab1'') (str ''standard'') = (Inr img, warm_store) \<and>
      length (im_ops img) = 3 \<and>
      im_ops img ! 2 = Text (499, 155) [49] (RGB 27 54 93) DefaultFont"
    by (simp add: b c sample_glyph_width numeral_2_eq_2 numeral_3_eq_3)
  with plate_config_standard warm_store_standard i show ?thesis
    by (intro conjI)
qed

section \<open>Empty text\<close>



section \<open>The background template\<close>

text \<open>
  Claim C7. When the background file of a registered plate type exists, a call of
  \<open>generate_plate\<close> leaves the asset directory exactly as it was, and the image it returns is
  the template with drawing calls added to a copy. So after any sequence of calls, with
  any texts and plate types, the directory is unchanged and the next call reads the same
  template.
\<close>

theorem generate_plate_keeps_template:
  assumes "plate_config pt = Some cfg" and "fs (image_path cfg) = Some bg"
  shows "snd (generate_plate E fs T pt) = fs \<and>
     (\<exists>ops. fst (generate_plate E fs T pt) = Inr (bg\<lparr>im_ops := im_ops bg @ ops\<rparr>)) \<and>
     generate_plates E fs calls = fs \<and>
     generate_plates E fs calls (image_path cfg) = Some bg"
proof -
  have p: "image_path cfg = image_path standard"
    by (simp add: plate_config_fields(2)[OF assms(1)] standard_def)
  have s: "fs (image_path standard) = Some bg"
    using assms(2) by (simp add: p)
  have l: "load_base_image E fs cfg = (Inr bg, fs)"
    using assms(2) by (simp add: load_base_image_registered[OF assms(1)])
  have o: "\<exists>ops. fst (generate_plate E fs T pt) = Inr (bg\<lparr>im_ops := im_ops bg @ ops\<rparr>)"
    by (rule exI[of _ "glyphs E (load_font E (font_size cfg)) (RGB 27 54 93) (text_position cfg)
                (letter_spacing cfg) (validate_text E cfg T)"])
       (simp add: generate_plate_ops[OF assms(1) l])
  show ?thesis
    using o assms(2)
    by (simp add: generate_plate_store_present[where fs=fs and bg=bg, OF s]
        generate_plates_store_present[where fs=fs and bg=bg, OF s])
qed

theorem generate_plate_keeps_template_witness:
  "plate_config (str ''standard'') = Some standard \<and>
   warm_store (image_path standard) = Some blank_plate \<and>
   snd (generate_plate sample_env warm_store (str ''ab'') (str ''standard'')) = warm_store \<and>
   generate_plates sample_env warm_store
     [(str ''ab'', str ''standard''), (str ''x'', str ''vanity''), ([], str ''standard'')] = warm_store \<and>
   generate_plates sample_env warm_store
     [(str ''ab'', str ''standard''), (str ''x'', str ''vanity''), ([], str ''standard'')]
     (image_path standard) = Some blank_plate"
  using generate_plate_keeps_template
      [where fs = warm_store and bg = blank_plate and E = sample_env and T = "str ''ab''"
         and calls = "[(str ''ab'', str ''standard''), (str ''x'', str ''vanity''), ([], str ''standard'')]",
       OF plate_config_standard warm_store_path]
    plate_config_standard warm_store_path
  by (elim conjE) (intro conjI)

text \<open>
  Claim C8, as the code has it. When the background file of a registered plate type does
  not exist and the asset directory takes the write, \<open>generate_plate\<close> builds the
  placeholder, which depends on the environment only and is 950 wide and 475 high, saves it
  under the path of the layout, and returns the placeholder with the glyphs drawn on it.
  Later calls reuse the saved file and build nothing: in any environment, also one with
  other fonts or a directory that cannot be written, a later call opens the image that was
  saved, draws on a copy of it, and any sequence of later calls leaves the directory as
  it is.
\<close>

theorem generate_plate_creates_placeholder:
  assumes "plate_config pt = Some cfg"
    and "fs (image_path cfg) = None"
    and "save_ok E (image_path cfg)"
  shows "let ph = placeholder_image E; fs' = fs(image_path cfg \<mapsto> ph) in
     im_width ph = 950 \<and> im_height ph = 475 \<and>
     snd (generate_plate E fs T pt) = fs' \<and>
     (\<exists>ops. fst (generate_plate E fs T pt) = Inr (ph\<lparr>im_ops := im_ops ph @ ops\<rparr>)) \<and>
     load_base_image E' fs' cfg = (Inr ph, fs') \<and>
     snd (generate_plate E' fs' T' pt) = fs' \<and>
     (\<exists>ops. fst (generate_plate E' fs' T' pt) = Inr (ph\<lparr>im_ops := im_ops ph @ ops\<rparr>)) \<and>
     generate_plates E' fs' calls = fs'"
proof -
  let ?ph = "placeholder_image E :: 'a image"
  let ?fs = "fs(image_path cfg \<mapsto> ?ph)"
  have p: "image_path cfg = image_path standard"
    by (simp add: plate_config_fields(2)[OF assms(1)] standard_def)
  have l1: "load_base_image E fs cfg = (Inr ?ph, ?fs)"
    using assms(2,3) by (simp add: load_base_image_registered[OF assms(1)])
  have l2: "load_base_image E' ?fs cfg = (Inr ?ph, ?fs)"
    by (simp add: load_base_image_registered[OF assms(1)])
  have o1: "\<exists>ops. fst (generate_plate E fs T pt) = Inr (?ph\<lparr>im_ops := im_ops ?ph @ ops\<rparr>)"
    by (rule exI[of _ "glyphs E (load_font E (font_size cfg)) (RGB 27 54 93) (text_position cfg)
                (letter_spacing cfg) (validate_text E cfg T)"])
       (simp add: generate_plate_ops[OF assms(1) l1])
  have o2: "\<exists>ops. fst (generate_plate E' ?fs T' pt) = Inr (?ph\<lparr>im_ops := im_ops ?ph @ ops\<rparr>)"
    by (rule exI[of _ "glyphs E' (load_font E' (font_size cfg)) (RGB 27 54 93) (text_position cfg)
                (letter_spacing cfg) (validate_text E' cfg T')"])
       (simp add: generate_plate_ops[OF assms(1) l2])
  have s1: "snd (generate_plate E fs T pt) = ?fs"
    by (simp add: generate_plate_ops[OF assms(1) l1])
  have s2: "snd (generate_plate E' ?fs T' pt) = ?fs"
    by (simp add: generate_plate_ops[OF assms(1) l2])
  have here: "?fs (image_path standard) = Some ?ph"
    by (simp add: p)
  have s3: "generate_plates E' ?fs calls = ?fs"
    by (rule generate_plates_store_present[where fs = ?fs and bg = ?ph, OF here])
  have z: "im_width ?ph = 950 \<and> im_height ?ph = 475"
    by (rule placeholder_image_size)
  show ?thesis
    unfolding Let_def using z s1 o1 l2 s2 o2 s3 by (intro conjI) simp_all
qed

theorem generate_plate_creates_placeholder_witness:
  "plate_config (str ''standard'') = Some standard \<and>
   (Map.empty :: nat store) (image_path standard) = None \<and>
   save_ok sample_env (image_path standard) \<and>
   snd (generate_plate sample_env (Map.empty :: nat store) (str ''ab'') (str ''standard'')) =
     [image_path standard \<mapsto> placeholder_image sample_env] \<and>
   load_base_image readonly_env [image_path standard \<mapsto> placeholder_image sample_env :: nat image]
       standard =
     (Inr (placeholder_image sample_env), [image_path standard \<mapsto> placeholder_image sample_env]) \<and>
   snd (generate_plate readonly_env [image_path standard \<mapsto> placeholder_image sample_env :: nat image]
          (str ''cd'') (str ''standard'')) =
     [image_path standard \<mapsto> placeholder_image sample_env] \<and>
   im_width (placeholder_image sample_env :: nat image) = 950 \<and>
   im_height (placeholder_image sample_env :: nat image) = 475"
proof -
  have w: "save_ok sample_env (image_path standard)"
    by (simp add: sample_env_def)
  show ?thesis
    using generate_plate_creates_placeholder
        [where fs = "Map.empty :: nat store" and E = sample_env and E' = readonly_env
           and T = "str ''ab''" and T' = "str ''cd''"
           and calls = "[(str ''cd'', str ''standard''), (str ''x'', str ''vanity'')]",
         OF plate_config_standard empty_store_path w, unfolded Let_def]
      plate_config_standard empty_store_path w
    by (elim conjE) (intro conjI)
qed

text \<open>
  Claim C8 as stated promises the placeholder whenever the file does not exist. When the
  asset directory cannot be written the save raises: the call returns no image and nothing
  is persisted.
\<close>

theorem generate_plate_unwritable_counterexample:
  "(Map.empty :: nat store) (image_path standard) = None \<and>
   generate_plate readonly_env (Map.empty :: nat store) (str ''ab'') (str ''standard'') =
     (Inl (OSError (image_path standard)), Map.empty)"
proof -
  have n: "\<not> save_ok readonly_env (image_path standard)"
    by (simp add: readonly_env_def)
  show ?thesis
    by (simp add: generate_plate_save_fails
        [where fs = "Map.empty :: nat store", OF plate_config_standard empty_store_path n])
qed

section \<open>Fonts\<close>

text \<open>
  Claim C9. For a registered plate type no failure to open a font file makes
  \<open>generate_plate\<close> fail: the call returns an image exactly when the base image is there,
  as a file or as a placeholder that could be saved, whichever font files can be opened.
  When none of the candidates in \<open>font_paths\<close> can be opened, the font is the built-in one,
  and the result is what \<open>draw_text_with_spacing\<close> draws with it on the base image.
\<close>

theorem generate_plate_font_fallback:
  assumes "plate_config pt = Some cfg"
  shows "(\<exists>img. fst (generate_plate E fs T pt) = Inr img) =
       (case fs (image_path cfg) of Some b \<Rightarrow> True | None \<Rightarrow> save_ok E (image_path cfg)) \<and>
     ((\<forall>p \<in> set font_paths. \<not> truetype_loads E p (font_size cfg)) \<longrightarrow>
        load_font E (font_size cfg) = DefaultFont \<and>
        fst (generate_plate E fs T pt) =
          (case fs (image_path cfg) of
             Some b \<Rightarrow>
               draw_text_with_spacing E b (validate_text E cfg T) (text_position cfg)
                 DefaultFont (text_color cfg) (letter_spacing cfg)
           | None \<Rightarrow>
               if save_ok E (image_path cfg)
               then draw_text_with_spacing E (placeholder_image E) (validate_text E cfg T)
                      (text_position cfg) DefaultFont (text_color cfg) (letter_spacing cfg)
               else Inl (OSError (image_path cfg))))"
proof -
  have fb: "load_font E (font_size cfg) = DefaultFont"
    if "\<forall>p \<in> set font_paths. \<not> truetype_loads E p (font_size cfg)"
    using that by (simp add: load_font_def try_fonts_none)
  show ?thesis
  proof (cases "fs (image_path cfg)")
    case (Some b)
    have l: "load_base_image E fs cfg = (Inr b, fs)"
      by (simp add: load_base_image_registered[OF assms] Some)
    have ok: "\<exists>img. fst (generate_plate E fs T pt) = Inr img"
      by (simp add: generate_plate_ops[OF assms l])
    have g: "fst (generate_plate E fs T pt) =
        draw_text_with_spacing E b (validate_text E cfg T) (text_position cfg)
          (load_font E (font_size cfg)) (text_color cfg) (letter_spacing cfg)"
      by (simp add: generate_plate_registered[OF assms l])
    show ?thesis
      using ok fb g by (simp add: Some)
  next
    case None
    show ?thesis
    proof (cases "save_ok E (image_path cfg)")
      case True
      have l: "load_base_image E fs cfg =
          (Inr (placeholder_image E), fs(image_path cfg \<mapsto> placeholder_image E))"
        by (simp add: load_base_image_registered[OF assms] None True)
      have ok: "\<exists>img. fst (generate_plate E fs T pt) = Inr img"
        by (simp add: generate_plate_ops[OF assms l])
      have g: "fst (generate_plate E fs T pt) =
          draw_text_with_spacing E (placeholder_image E) (validate_text E cfg T)
            (text_position cfg) (load_font E (font_size cfg)) (text_color cfg)
            (letter_spacing cfg)"
        by (simp add: generate_plate_registered[OF assms l])
      show ?thesis
        using ok fb g by (simp add: None True)
    next
      case False
      have g: "generate_plate E fs T pt = (Inl (OSError (image_path cfg)), fs)"
        by (rule generate_plate_save_fails[where fs = fs, OF assms None False])
      show ?thesis
        using fb by (simp add: g None False)
    qed
  qed
qed

theorem generate_plate_font_fallback_witness:
  "plate_config (str ''standard'') = Some standard \<and>
   filter (\<lambda>p. truetype_loads sample_env p (font_size standard)) font_paths = [] \<and>
   load_font sample_env (font_size standard) = DefaultFont \<and>
   fst (generate_plate sample_env warm_store (str ''ab'') (str ''standard'')) =
     Inr (blank_plate\<lparr>im_ops :=
            [Text (482, 155) [65] (RGB 27 54 93) DefaultFont,
             Text (494, 155) [66] (RGB 27 54 93) DefaultFont]\<rparr>)"
proof -
  have v: "validate_text sample_env standard (str ''ab'') = [65, 66]"
    by (simp add: validate_text_def sample_env_def standard_def str_def upper_def ascii_upper_def
      strip_def py_isspace_def)
  have c: "hex_to_rgb sample_env (text_color standard) = Inr (RGB 27 54 93)"
    by (simp add: standard_def hex_to_rgb_standard)
  have p: "text_position standard = (490, 180)" "letter_spacing standard = 8"
    by (simp_all add: standard_def)
  have d: "draw_text_with_spacing sample_env blank_plate [65, 66] (text_position standard)
       DefaultFont (text_color standard) (letter_spacing standard) =
     Inr (blank_plate\<lparr>im_ops :=
            [Text (482, 155) [65] (RGB 27 54 93) DefaultFont,
             Text (494, 155) [66] (RGB 27 54 93) DefaultFont]\<rparr>)"
    unfolding p
    by (simp add: draw_text_with_spacing_eq[OF c] start_x_def total_width_eq sample_glyph_width
        blank_plate_def upt_conv_Cons)
  note r = generate_plate_font_fallback
      [where fs = warm_store and E = sample_env and T = "str ''ab''", OF plate_config_standard,
       THEN conjunct2, THEN mp, OF sample_no_fonts]
  note r1 = r[THEN conjunct1]
  note r2 = r[THEN conjunct2, unfolded warm_store_path option.case v d]
  have n: "filter (\<lambda>p. truetype_loads sample_env p (font_size standard)) font_paths = []"
    by (simp add: sample_env_def)
  from plate_config_standard n r1 r2 show ?thesis
    by (intro conjI)
qed

section \<open>Image size\<close>

text \<open>
  Claim C10. The image a successful call of \<open>generate_plate\<close> returns has the width and
  height of the base image it opened, for every text; when the base image is the
  placeholder that is 950 by 475.
\<close>

theorem generate_plate_keeps_size:
  assumes "plate_config pt = Some cfg" and "load_base_image E fs cfg = (Inr bg, fs')"
  shows "\<exists>img. generate_plate E fs T pt = (Inr img, fs') \<and>
     im_width img = im_width bg \<and> im_height img = im_height bg \<and>
     (fs (image_path cfg) = None \<longrightarrow> im_width img = 950 \<and> im_height img = 475)"
proof -
  have b: "bg = placeholder_image E" if "fs (image_path cfg) = None"
    using assms(2) that
    by (simp add: load_base_image_registered[OF assms(1)] split: if_splits)
  show ?thesis
    using b by (auto simp add: generate_plate_ops[OF assms] placeholder_image_size)
qed

theorem generate_plate_keeps_size_witness:
  "plate_config (str ''standard'') = Some standard \<and>
   load_base_image sample_env (Map.empty :: nat store) standard =
     (Inr (placeholder_image sample_env), [image_path standard \<mapsto> placeholder_image sample_env]) \<and>
   (Map.empty :: nat store) (image_path standard) = None \<and>
   (\<exists>img. generate_plate sample_env (Map.empty :: nat store) (str ''ab'') (str ''standard'') =
        (Inr img, [image_path standard \<mapsto> placeholder_image sample_env]) \<and>
      im_width img = 950 \<and> im_height img = 475)"
  using generate_plate_keeps_size
      [where fs = "Map.empty :: nat store" and E = sample_env and T = "str ''ab''",
       OF plate_config_standard empty_store_standard]
    plate_config_standard empty_store_standard
  by auto

end
